theory Spec2Isabelle
  imports Complex_Main "HOL-Library.AList" "HOL-Library.Multiset"
begin

section \<open>Data model\<close>

text \<open>
  Python floats are modelled as exact rationals: every statement below is about the
  arithmetic the code writes down, evaluated without rounding error of the machine.
  A Python \<open>dict\<close> is an association list in insertion order with distinct keys;
  \<open>AList.update\<close> overwrites a present key in place and appends an absent one, as a
  \<open>dict\<close> assignment does.
\<close>

type_synonym 'v dict = "(string \<times> 'v) list"

datatype error = KeyError string | ZeroDivisionError

text \<open>One item of the classifier's output, \<open>{'label': ..., 'score': ...}\<close>.\<close>

type_synonym raw_item = "string \<times> rat"

definition emotion_labels :: "string list" where
  "emotion_labels = [''happy'', ''angry'', ''frustrated'', ''confused'', ''sad'',
                     ''surprised'', ''neutral'', ''hopeful'', ''bored'']"

section \<open>Dictionary primitives\<close>

text \<open>\<open>dict.fromkeys(ks, v)\<close>: the keys are assigned one after the other.\<close>

definition dict_fromkeys :: "string list \<Rightarrow> 'v \<Rightarrow> 'v dict" where
  "dict_fromkeys ks v = fold (\<lambda>k d. AList.update k v d) ks []"

text \<open>\<open>d[k] += s\<close> on a plain \<open>dict\<close>: reading an absent key raises \<open>KeyError\<close>.\<close>

definition dict_iadd :: "string \<Rightarrow> rat \<Rightarrow> rat dict \<Rightarrow> error + rat dict" where
  "dict_iadd k s d =
     (case map_of d k of
        None \<Rightarrow> Inl (KeyError k)
      | Some v \<Rightarrow> Inr (AList.update k (v + s) d))"

text \<open>\<open>d[k] += s\<close> on a \<open>defaultdict(float)\<close>: an absent key reads as \<open>0.0\<close>.\<close>

definition defaultdict_get :: "rat dict \<Rightarrow> string \<Rightarrow> rat" where
  "defaultdict_get d k = (case map_of d k of None \<Rightarrow> 0 | Some v \<Rightarrow> v)"

definition defaultdict_iadd :: "string \<Rightarrow> rat \<Rightarrow> rat dict \<Rightarrow> rat dict" where
  "defaultdict_iadd k s d = AList.update k (defaultdict_get d k + s) d"

section \<open>Strings\<close>

text \<open>
  \<open>str.lower()\<close> on the letters \<open>A\<close> to \<open>Z\<close>; every other character is kept. The
  labels compared against are plain lower-case ASCII words without the letter k, so no
  character outside \<open>A\<close> to \<open>Z\<close> can be lowered onto one of them.
\<close>

definition lower_char :: "char \<Rightarrow> char" where
  "lower_char c =
     (let n = (of_char c :: nat)
      in if 65 \<le> n \<and> n \<le> 90 then char_of (n + 32) else c)"

definition lower :: "string \<Rightarrow> string" where
  "lower s = map lower_char s"

section \<open>The segment emotion mapper: \<open>classify_emotion\<close>\<close>

text \<open>The body of the \<open>for item in result\<close> loop: the \<open>if\<close>/\<open>elif\<close> chain in source order.\<close>

fun classify_step :: "raw_item \<Rightarrow> rat dict \<Rightarrow> error + rat dict" where
  "classify_step (item_label, score) mapped =
     (let label = lower item_label
      in if label \<in> set [''joy''] then dict_iadd ''happy'' score mapped
         else if label \<in> set [''anger'', ''annoyance''] then dict_iadd ''angry'' score mapped
         else if label \<in> set [''disgust'', ''disappointment''] then dict_iadd ''frustrated'' score mapped
         else if label \<in> set [''confusion'', ''realization''] then dict_iadd ''confused'' score mapped
         else if label \<in> set [''sadness''] then dict_iadd ''sad'' score mapped
         else if label \<in> set [''surprise''] then dict_iadd ''surprised'' score mapped
         else if label \<in> set [''neutral''] then dict_iadd ''neutral'' score mapped
         else if label \<in> set [''caring'', ''excitement''] then dict_iadd ''hopeful'' score mapped
         else if label \<in> set [''boredom''] then dict_iadd ''bored'' score mapped
         else Inr mapped)"

fun classify_loop :: "raw_item list \<Rightarrow> rat dict \<Rightarrow> error + rat dict" where
  "classify_loop [] mapped = Inr mapped"
| "classify_loop (item # rest) mapped =
     (case classify_step item mapped of
        Inl e \<Rightarrow> Inl e
      | Inr mapped' \<Rightarrow> classify_loop rest mapped')"

text \<open>
  The classifier is external: \<open>emotion_model\<close> stands for \<open>emotion_model(text)[0]\<close>, the
  list of label/score items it returns for one text.
\<close>

definition classify_emotion :: "(string \<Rightarrow> raw_item list) \<Rightarrow> string \<Rightarrow> error + rat dict" where
  "classify_emotion emotion_model txt =
     classify_loop (emotion_model txt) (dict_fromkeys emotion_labels 0)"

section \<open>The grouping table of the specification\<close>

text \<open>
  The table of section 4.1, row by row: the external labels of a row and the canonical
  bucket they are added to. \<open>bucket_of\<close> looks a lower-cased label up; \<open>bucket_sum\<close> adds
  the scores of all items of a raw classification that belong to one bucket.
\<close>

definition grouping_table :: "(string list \<times> string) list" where
  "grouping_table =
     [([''joy''], ''happy''),
      ([''anger'', ''annoyance''], ''angry''),
      ([''disgust'', ''disappointment''], ''frustrated''),
      ([''confusion'', ''realization''], ''confused''),
      ([''sadness''], ''sad''),
      ([''surprise''], ''surprised''),
      ([''neutral''], ''neutral''),
      ([''caring'', ''excitement''], ''hopeful''),
      ([''boredom''], ''bored'')]"

definition bucket_of :: "string \<Rightarrow> string option" where
  "bucket_of l = map_option snd (find (\<lambda>row. l \<in> set (fst row)) grouping_table)"

definition bucket_sum :: "string \<Rightarrow> raw_item list \<Rightarrow> rat" where
  "bucket_sum b raw =
     sum_list (map snd (filter (\<lambda>item. bucket_of (lower (fst item)) = Some b) raw))"

section \<open>The call aggregator: \<open>analyze_call\<close>\<close>

text \<open>
  Preprocessing and transcription are external tools. \<open>transcription\<close> is the value of
  \<open>transcriber.transcribe(clean_path)\<close>: an optional language code and the segments, of
  which only \<open>segment['text']\<close> is read.
\<close>

record segment =
  seg_text :: string

record transcription =
  language :: "string option"
  segments :: "segment list"

record history_entry =
  entry_text :: string
  translated :: string
  emotions :: "rat dict"

text \<open>The variables that \<open>analyze_call\<close> resets at its start and updates in its loop.\<close>

record call_state =
  emotion_totals :: "rat dict"
  utterance_count :: nat
  emotion_history :: "history_entry list"
  full_transcript :: "string list"

definition init_state :: call_state where
  "init_state = \<lparr>emotion_totals = [], utterance_count = 0,
                 emotion_history = [], full_transcript = []\<rparr>"

definition translate_text_auto :: "string \<Rightarrow> string \<Rightarrow> string" where
  "translate_text_auto txt src_lang = txt"

text \<open>\<open>for k, v in emotions.items(): emotion_totals[k] += v\<close>\<close>

definition add_emotions :: "rat dict \<Rightarrow> rat dict \<Rightarrow> rat dict" where
  "add_emotions emos totals = fold (\<lambda>(k, v) d. defaultdict_iadd k v d) emos totals"

text \<open>One pass of the \<open>for segment in result['segments']\<close> loop.\<close>

definition segment_step ::
  "(string \<Rightarrow> raw_item list) \<Rightarrow> string \<Rightarrow> segment \<Rightarrow> call_state \<Rightarrow> error + call_state" where
  "segment_step emotion_model lang seg st =
     (let txt = seg_text seg;
          transcript' = full_transcript st @ [txt];
          translated_txt = translate_text_auto txt lang
      in case classify_emotion emotion_model translated_txt of
           Inl e \<Rightarrow> Inl e
         | Inr emos \<Rightarrow>
             Inr \<lparr>emotion_totals = add_emotions emos (emotion_totals st),
                  utterance_count = utterance_count st + 1,
                  emotion_history = emotion_history st @
                    [\<lparr>entry_text = txt, translated = translated_txt, emotions = emos\<rparr>],
                  full_transcript = transcript'\<rparr>)"

fun segments_loop ::
  "(string \<Rightarrow> raw_item list) \<Rightarrow> string \<Rightarrow> segment list \<Rightarrow> call_state \<Rightarrow> error + call_state" where
  "segments_loop emotion_model lang [] st = Inr st"
| "segments_loop emotion_model lang (seg # rest) st =
     (case segment_step emotion_model lang seg st of
        Inl e \<Rightarrow> Inl e
      | Inr st' \<Rightarrow> segments_loop emotion_model lang rest st')"

text \<open>
  \<open>analyze_call\<close> up to the end of its loop: the language is
  \<open>result.get("language", "en")\<close>, and the loop starts from the reset variables.
\<close>

definition accumulate :: "(string \<Rightarrow> raw_item list) \<Rightarrow> transcription \<Rightarrow> error + call_state" where
  "accumulate emotion_model result =
     (let lang = (case language result of None \<Rightarrow> ''en'' | Some l \<Rightarrow> l)
      in segments_loop emotion_model lang (segments result) init_state)"

text \<open>Float division raises on a zero divisor.\<close>

definition py_truediv :: "rat \<Rightarrow> rat \<Rightarrow> error + rat" where
  "py_truediv a b = (if b = 0 then Inl ZeroDivisionError else Inr (a / b))"

text \<open>\<open>round(x, 2)\<close>: to the nearest multiple of 1/100, a tie going to the even one.\<close>

definition round_half_even :: "rat \<Rightarrow> int" where
  "round_half_even y =
     (let f = \<lfloor>y\<rfloor>; d = y - of_int f
      in if d < 1 / 2 then f
         else if 1 / 2 < d then f + 1
         else if even f then f else f + 1)"

definition py_round2 :: "rat \<Rightarrow> rat" where
  "py_round2 x = of_int (round_half_even (x * 100)) / 100"

text \<open>\<open>round((v / total) * 100, 2) if total > 0 else 0.0\<close>\<close>

definition percentage :: "rat \<Rightarrow> rat \<Rightarrow> error + rat" where
  "percentage v total_sum =
     (if total_sum > 0
      then (case py_truediv v total_sum of
              Inl e \<Rightarrow> Inl e
            | Inr q \<Rightarrow> Inr (py_round2 (q * 100)))
      else Inr 0)"

text \<open>
  The dictionary comprehension over \<open>emotion_totals.items()\<close>: the keys of a \<open>dict\<close> are
  distinct, so every entry is a new key of the result, in the same order.
\<close>

fun final_percentages :: "rat dict \<Rightarrow> rat \<Rightarrow> error + rat dict" where
  "final_percentages [] total_sum = Inr []"
| "final_percentages ((k, v) # rest) total_sum =
     (case percentage v total_sum of
        Inl e \<Rightarrow> Inl e
      | Inr p \<Rightarrow>
          (case final_percentages rest total_sum of
             Inl e \<Rightarrow> Inl e
           | Inr d \<Rightarrow> Inr ((k, p) # d)))"

text \<open>\<open>sep.join(xs)\<close>\<close>

fun py_join :: "string \<Rightarrow> string list \<Rightarrow> string" where
  "py_join sep [] = []"
| "py_join sep [x] = x"
| "py_join sep (x # y # ys) = x @ sep @ py_join sep (y # ys)"

definition newline :: string where
  "newline = [CHR 0x0A]"

definition analyze_call ::
  "(string \<Rightarrow> raw_item list) \<Rightarrow> transcription
     \<Rightarrow> error + (history_entry list \<times> rat dict \<times> string)" where
  "analyze_call emotion_model result =
     (case accumulate emotion_model result of
        Inl e \<Rightarrow> Inl e
      | Inr st \<Rightarrow>
          (let total_sum = sum_list (map snd (emotion_totals st))
           in case final_percentages (emotion_totals st) total_sum of
                Inl e \<Rightarrow> Inl e
              | Inr percentages \<Rightarrow>
                  Inr (emotion_history st, percentages,
                       py_join newline (full_transcript st))))"

section \<open>Closed forms used in the statements\<close>

text \<open>
  The history entry that a segment produces, and the sum of one bucket over the segments
  of a call.
\<close>

definition entry_of :: "(string \<Rightarrow> raw_item list) \<Rightarrow> segment \<Rightarrow> history_entry" where
  "entry_of emotion_model seg =
     \<lparr>entry_text = seg_text seg, translated = seg_text seg,
      emotions = map (\<lambda>k. (k, bucket_sum k (emotion_model (seg_text seg)))) emotion_labels\<rparr>"

definition bucket_total :: "(string \<Rightarrow> raw_item list) \<Rightarrow> segment list \<Rightarrow> string \<Rightarrow> rat" where
  "bucket_total emotion_model segs k =
     sum_list (map (\<lambda>seg. bucket_sum k (emotion_model (seg_text seg))) segs)"

section \<open>Batch processing: \<open>process_batch\<close>\<close>

text \<open>
  \<open>run_live_analysis\<close> draws the charts of one call and returns the status line, the two
  chart images (\<open>None\<close> when the analysis failed) and the transcript. Here it is a
  parameter that may raise; the images are an abstract type. Strings are UTF-8 bytes, so
  the three pictographs of the messages are written as their byte sequences.
\<close>

type_synonym 'img analysis = "string \<times> 'img option \<times> 'img option \<times> string"

text \<open>\<open>os.path.basename\<close>: what follows the last slash.\<close>

definition basename :: "string \<Rightarrow> string" where
  "basename p = rev (takeWhile (\<lambda>c. c \<noteq> CHR ''/'') (rev p))"

text \<open>The decimal digits that an f-string prints for a non-negative integer.\<close>

definition digit_char :: "nat \<Rightarrow> char" where
  "digit_char d = char_of (48 + d)"

fun str_nat :: "nat \<Rightarrow> string" where
  "str_nat n = (if n < 10 then [digit_char n] else str_nat (n div 10) @ [digit_char (n mod 10)])"

declare str_nat.simps [simp del]

definition folder_icon :: string where
  "folder_icon = [CHR 0xF0, CHR 0x9F, CHR 0x93, CHR 0x81]"

definition check_icon :: string where
  "check_icon = [CHR 0xE2, CHR 0x9C, CHR 0x85]"

definition cross_icon :: string where
  "cross_icon = [CHR 0xE2, CHR 0x9D, CHR 0x8C]"

text \<open>\<open>os.path.basename(file) if file else f"File {i+1}"\<close>\<close>

definition file_name_of :: "nat \<Rightarrow> string \<Rightarrow> string" where
  "file_name_of i file = (if file \<noteq> [] then basename file else ''File '' @ str_nat (i + 1))"

definition formatted_status_of :: "nat \<Rightarrow> string \<Rightarrow> string \<Rightarrow> string" where
  "formatted_status_of i file status =
     folder_icon @ '' '' @ file_name_of i file @ newline @ status @ newline
       @ replicate 50 (CHR ''='')"

definition formatted_transcript_of :: "nat \<Rightarrow> string \<Rightarrow> string \<Rightarrow> string" where
  "formatted_transcript_of i file transcript =
     folder_icon @ '' '' @ file_name_of i file @ '':'' @ newline @ transcript @ newline
       @ replicate 80 (CHR ''='') @ newline"

record 'img batch_state =
  statuses :: "string list"
  bars :: "'img list"
  lines :: "'img list"
  transcripts :: "string list"

text \<open>One pass of \<open>for i, file in enumerate(files_to_process)\<close>.\<close>

definition batch_step ::
  "(string \<Rightarrow> error + 'img analysis) \<Rightarrow> nat \<Rightarrow> string \<Rightarrow> 'img batch_state
     \<Rightarrow> error + 'img batch_state" where
  "batch_step run_live_analysis i file st =
     (case run_live_analysis file of
        Inl e \<Rightarrow> Inl e
      | Inr (status, bar_fig, line_fig, transcript) \<Rightarrow>
          Inr \<lparr>statuses = statuses st @ [formatted_status_of i file status],
               bars = (case bar_fig of None \<Rightarrow> bars st | Some b \<Rightarrow> bars st @ [b]),
               lines = (case line_fig of None \<Rightarrow> lines st | Some l \<Rightarrow> lines st @ [l]),
               transcripts = transcripts st @ [formatted_transcript_of i file transcript]\<rparr>)"

fun batch_loop ::
  "(string \<Rightarrow> error + 'img analysis) \<Rightarrow> nat \<Rightarrow> string list \<Rightarrow> 'img batch_state
     \<Rightarrow> error + 'img batch_state" where
  "batch_loop run_live_analysis i [] st = Inr st"
| "batch_loop run_live_analysis i (file # rest) st =
     (case batch_step run_live_analysis i file st of
        Inl e \<Rightarrow> Inl e
      | Inr st' \<Rightarrow> batch_loop run_live_analysis (i + 1) rest st')"

text \<open>\<open>audio_files[:10] if len(audio_files) > 10 else audio_files\<close>\<close>

definition files_to_process :: "string list \<Rightarrow> string list" where
  "files_to_process audio_files =
     (if length audio_files > 10 then take 10 audio_files else audio_files)"

definition notification_of :: "string list \<Rightarrow> string" where
  "notification_of audio_files =
     (let notification = check_icon @ '' Successfully processed ''
            @ str_nat (length (files_to_process audio_files)) @ '' file(s)!''
      in if length audio_files > 10
         then notification @ '' (Limited to first 10 files, ''
                @ str_nat (length audio_files - 10) @ '' files skipped)''
         else notification)"

text \<open>
  The upload widget passes \<open>None\<close> when nothing was chosen; \<open>not audio_files\<close> holds for
  \<open>None\<close> and for the empty list.
\<close>

definition process_batch ::
  "(string \<Rightarrow> error + 'img analysis) \<Rightarrow> string list option
     \<Rightarrow> error + (string \<times> 'img list \<times> 'img list \<times> string \<times> string)" where
  "process_batch run_live_analysis audio_files_opt =
     (case audio_files_opt of
        None \<Rightarrow> Inr (cross_icon @ '' No files uploaded'', [], [],
                     ''No transcriptions available.'',
                     cross_icon @ '' Please upload audio files first.'')
      | Some audio_files \<Rightarrow>
          if audio_files = []
          then Inr (cross_icon @ '' No files uploaded'', [], [],
                    ''No transcriptions available.'',
                    cross_icon @ '' Please upload audio files first.'')
          else (case batch_loop run_live_analysis 0 (files_to_process audio_files)
                       \<lparr>statuses = [], bars = [], lines = [], transcripts = []\<rparr> of
                  Inl e \<Rightarrow> Inl e
                | Inr st \<Rightarrow>
                    Inr (py_join newline (statuses st), bars st, lines st,
                         py_join newline (transcripts st),
                         notification_of audio_files)))"

section \<open>Example inputs\<close>

text \<open>
  A classifier output with two labels of one bucket and an unknown label, the same items
  in another order, and an output that spreads a little score over eight buckets.
\<close>

definition additivity_model :: "string \<Rightarrow> raw_item list" where
  "additivity_model txt = [(''anger'', 3 / 10), (''annoyance'', 2 / 10), (''neutral-ish'', 9 / 10)]"





text \<open>An analysis that always succeeds without charts, and an upload of eleven files.\<close>

definition stub_analysis :: "string \<Rightarrow> error + unit analysis" where
  "stub_analysis file = Inr (''ok'', None, None, ''hi'')"

definition eleven_files :: "string list" where
  "eleven_files = [''a/1.wav'', ''a/2.wav'', ''a/3.wav'', ''a/4.wav'', ''a/5.wav'', ''a/6.wav'',
                   ''a/7.wav'', ''a/8.wav'', ''a/9.wav'', ''a/10.wav'', ''a/11.wav'']"

section \<open>Facts about the dictionary primitives\<close>

lemma dict_fromkeys_labels:
  "dict_fromkeys emotion_labels v = map (\<lambda>k. (k, v)) emotion_labels"
  by (simp add: dict_fromkeys_def emotion_labels_def)

lemma update_present:
  "distinct (map fst d) \<Longrightarrow> k \<in> fst ` set d \<Longrightarrow>
   AList.update k w d = map (\<lambda>p. (fst p, if fst p = k then w else snd p)) d"
proof (induction d)
  case Nil
  then show ?case by simp
next
  case (Cons p d)
  show ?case
  proof (cases "fst p = k")
    case True
    with Cons.prems have "k \<notin> fst ` set d" by auto
    then have "map (\<lambda>q. (fst q, if fst q = k then w else snd q)) d = d"
      by (induction d) auto
    with True show ?thesis by (cases p) simp
  next
    case False
    with Cons show ?thesis by (cases p) auto
  qed
qed

lemma dict_iadd_present:
  assumes "distinct (map fst d)" and "k \<in> fst ` set d"
  shows "dict_iadd k s d = Inr (map (\<lambda>p. (fst p, snd p + (if fst p = k then s else 0))) d)"
proof -
  from assms(2) obtain v where v: "map_of d k = Some v"
    by (metis domD dom_map_of_conv_image_fst)
  have "AList.update k (v + s) d = map (\<lambda>p. (fst p, if fst p = k then v + s else snd p)) d"
    by (rule update_present [OF assms])
  also have "\<dots> = map (\<lambda>p. (fst p, snd p + (if fst p = k then s else 0))) d"
  proof (rule map_cong [OF refl])
    fix p assume "p \<in> set d"
    with assms(1) v have "fst p = k \<Longrightarrow> snd p = v"
      by (metis map_of_is_SomeI option.inject prod.collapse)
    then show "(fst p, if fst p = k then v + s else snd p)
             = (fst p, snd p + (if fst p = k then s else 0))"
      by auto
  qed
  finally show ?thesis using v by (simp add: dict_iadd_def)
qed

section \<open>The mapper computes the bucket sums\<close>

lemma bucket_of_label: "bucket_of l = Some b \<Longrightarrow> b \<in> set emotion_labels"
  by (auto simp: bucket_of_def grouping_table_def emotion_labels_def split: if_splits)

lemma classify_step_bucket:
  "classify_step (l, s) mapped =
     (case bucket_of (lower l) of None \<Rightarrow> Inr mapped | Some b \<Rightarrow> dict_iadd b s mapped)"
  by (simp add: bucket_of_def grouping_table_def)

lemma classify_step_closed:
  assumes "distinct (map fst mapped)" and "set emotion_labels \<subseteq> fst ` set mapped"
  shows "classify_step item mapped =
           Inr (map (\<lambda>p. (fst p, snd p + bucket_sum (fst p) [item])) mapped)"
proof (cases item)
  case (Pair l s)
  show ?thesis
  proof (cases "bucket_of (lower l)")
    case None
    then show ?thesis
      by (simp add: Pair classify_step_bucket bucket_sum_def del: classify_step.simps)
  next
    case (Some b)
    with assms(2) have "b \<in> fst ` set mapped"
      using bucket_of_label by blast
    from dict_iadd_present [OF assms(1) this] Some show ?thesis
      by (simp add: Pair classify_step_bucket bucket_sum_def del: classify_step.simps cong: map_cong)
  qed
qed

lemma bucket_sum_Cons:
  "bucket_sum b (item # raw) = bucket_sum b [item] + bucket_sum b raw"
  by (simp add: bucket_sum_def)

lemma classify_loop_closed:
  "distinct (map fst mapped) \<Longrightarrow> set emotion_labels \<subseteq> fst ` set mapped \<Longrightarrow>
   classify_loop raw mapped = Inr (map (\<lambda>p. (fst p, snd p + bucket_sum (fst p) raw)) mapped)"
proof (induction raw arbitrary: mapped)
  case Nil
  then show ?case by (simp add: bucket_sum_def)
next
  case (Cons item raw)
  let ?m = "map (\<lambda>p. (fst p, snd p + bucket_sum (fst p) [item])) mapped"
  have step: "classify_step item mapped = Inr ?m"
    by (rule classify_step_closed [OF Cons.prems])
  have keys: "map fst ?m = map fst mapped"
    by (simp add: comp_def)
  have "classify_loop raw ?m = Inr (map (\<lambda>p. (fst p, snd p + bucket_sum (fst p) raw)) ?m)"
  proof (rule Cons.IH)
    show "distinct (map fst ?m)" unfolding keys by (rule Cons.prems(1))
    show "set emotion_labels \<subseteq> fst ` set ?m"
      using Cons.prems(2) keys by (metis image_set)
  qed
  then show ?case
    by (simp add: step comp_def bucket_sum_Cons [of _ item raw] add.assoc)
qed

lemma classify_emotion_closed:
  "classify_emotion emotion_model txt =
     Inr (map (\<lambda>k. (k, bucket_sum k (emotion_model txt))) emotion_labels)"
proof -
  have "distinct (map fst (dict_fromkeys emotion_labels (0::rat)))"
    by (simp add: dict_fromkeys_labels comp_def) (simp add: emotion_labels_def)
  moreover have "set emotion_labels \<subseteq> fst ` set (dict_fromkeys emotion_labels (0::rat))"
    by (simp add: dict_fromkeys_labels image_comp comp_def)
  ultimately show ?thesis
    unfolding classify_emotion_def
    by (simp add: classify_loop_closed) (simp add: dict_fromkeys_labels comp_def)
qed

section \<open>The aggregation loop in closed form\<close>

lemma add_emotions_empty_labels:
  "add_emotions (map (\<lambda>k. (k, f k)) emotion_labels) [] = map (\<lambda>k. (k, f k)) emotion_labels"
  by (simp add: add_emotions_def emotion_labels_def defaultdict_iadd_def defaultdict_get_def)

lemma add_emotions_labels:
  "add_emotions (map (\<lambda>k. (k, f k)) emotion_labels) (map (\<lambda>k. (k, g k)) emotion_labels)
     = map (\<lambda>k. (k, g k + f k)) emotion_labels"
  by (simp add: add_emotions_def emotion_labels_def defaultdict_iadd_def defaultdict_get_def)

lemma segment_step_tab:
  assumes "emotion_totals st = map (\<lambda>k. (k, g k)) emotion_labels"
  shows "segment_step em lang seg st =
           Inr \<lparr>emotion_totals = map (\<lambda>k. (k, g k + bucket_sum k (em (seg_text seg)))) emotion_labels,
                utterance_count = utterance_count st + 1,
                emotion_history = emotion_history st @ [entry_of em seg],
                full_transcript = full_transcript st @ [seg_text seg]\<rparr>"
  by (simp add: segment_step_def Let_def translate_text_auto_def classify_emotion_closed assms
      add_emotions_labels entry_of_def)

lemma segment_step_init:
  assumes "emotion_totals st = []"
  shows "segment_step em lang seg st =
           Inr \<lparr>emotion_totals = map (\<lambda>k. (k, bucket_sum k (em (seg_text seg)))) emotion_labels,
                utterance_count = utterance_count st + 1,
                emotion_history = emotion_history st @ [entry_of em seg],
                full_transcript = full_transcript st @ [seg_text seg]\<rparr>"
  by (simp add: segment_step_def Let_def translate_text_auto_def classify_emotion_closed assms
      add_emotions_empty_labels entry_of_def)

lemma segments_loop_tab:
  "emotion_totals st = map (\<lambda>k. (k, g k)) emotion_labels \<Longrightarrow>
   segments_loop em lang segs st =
     Inr \<lparr>emotion_totals = map (\<lambda>k. (k, g k + bucket_total em segs k)) emotion_labels,
          utterance_count = utterance_count st + length segs,
          emotion_history = emotion_history st @ map (entry_of em) segs,
          full_transcript = full_transcript st @ map seg_text segs\<rparr>"
proof (induction segs arbitrary: st g)
  case Nil
  then show ?case by (simp add: bucket_total_def)
next
  case (Cons seg segs)
  let ?g = "\<lambda>k. g k + bucket_sum k (em (seg_text seg))"
  let ?st = "\<lparr>emotion_totals = map (\<lambda>k. (k, ?g k)) emotion_labels,
              utterance_count = utterance_count st + 1,
              emotion_history = emotion_history st @ [entry_of em seg],
              full_transcript = full_transcript st @ [seg_text seg]\<rparr>"
  have "segments_loop em lang (seg # segs) st = segments_loop em lang segs ?st"
    by (simp add: segment_step_tab [OF Cons.prems])
  also have "\<dots> = Inr \<lparr>emotion_totals = map (\<lambda>k. (k, ?g k + bucket_total em segs k)) emotion_labels,
          utterance_count = utterance_count ?st + length segs,
          emotion_history = emotion_history ?st @ map (entry_of em) segs,
          full_transcript = full_transcript ?st @ map seg_text segs\<rparr>"
    by (rule Cons.IH) simp
  finally show ?case by (simp add: bucket_total_def add.assoc)
qed

lemma segments_loop_init:
  "segments_loop em lang segs init_state =
     Inr \<lparr>emotion_totals =
            (if segs = [] then [] else map (\<lambda>k. (k, bucket_total em segs k)) emotion_labels),
          utterance_count = length segs,
          emotion_history = map (entry_of em) segs,
          full_transcript = map seg_text segs\<rparr>"
proof (cases segs)
  case Nil
  then show ?thesis by (simp add: init_state_def)
next
  case (Cons seg rest)
  let ?st = "\<lparr>emotion_totals = map (\<lambda>k. (k, bucket_sum k (em (seg_text seg)))) emotion_labels,
              utterance_count = utterance_count init_state + 1,
              emotion_history = emotion_history init_state @ [entry_of em seg],
              full_transcript = full_transcript init_state @ [seg_text seg]\<rparr>"
  have "segments_loop em lang (seg # rest) init_state = segments_loop em lang rest ?st"
    by (simp add: segment_step_init init_state_def)
  also have "\<dots> = Inr \<lparr>emotion_totals =
        map (\<lambda>k. (k, bucket_sum k (em (seg_text seg)) + bucket_total em rest k)) emotion_labels,
          utterance_count = utterance_count ?st + length rest,
          emotion_history = emotion_history ?st @ map (entry_of em) rest,
          full_transcript = full_transcript ?st @ map seg_text rest\<rparr>"
    by (rule segments_loop_tab) simp
  finally show ?thesis by (simp add: Cons bucket_total_def init_state_def)
qed

lemma accumulate_closed:
  "accumulate em result =
     Inr \<lparr>emotion_totals =
            (if segments result = [] then []
             else map (\<lambda>k. (k, bucket_total em (segments result) k)) emotion_labels),
          utterance_count = length (segments result),
          emotion_history = map (entry_of em) (segments result),
          full_transcript = map seg_text (segments result)\<rparr>"
  by (simp add: accumulate_def segments_loop_init)

lemma final_percentages_pos:
  "0 < t \<Longrightarrow> final_percentages d t = Inr (map (\<lambda>p. (fst p, py_round2 (snd p / t * 100))) d)"
  by (induction d t rule: final_percentages.induct) (simp_all add: percentage_def py_truediv_def)

lemma final_percentages_zero:
  "\<not> 0 < t \<Longrightarrow> final_percentages d t = Inr (map (\<lambda>p. (fst p, 0)) d)"
  by (induction d t rule: final_percentages.induct) (simp_all add: percentage_def)

lemma py_join_newline:
  "py_join sep xs = (case xs of [] \<Rightarrow> [] | x # rest \<Rightarrow> x @ concat (map (\<lambda>u. sep @ u) rest))"
  by (induction sep xs rule: py_join.induct) simp_all


lemma analyze_call_state:
  assumes "accumulate em result = Inr st"
  shows "analyze_call em result =
     Inr (emotion_history st,
          map (\<lambda>p. (fst p, if 0 < sum_list (map snd (emotion_totals st))
                            then py_round2 (snd p / sum_list (map snd (emotion_totals st)) * 100)
                            else 0)) (emotion_totals st),
          py_join newline (full_transcript st))"
  by (cases "0 < sum_list (map snd (emotion_totals st))")
     (simp_all add: analyze_call_def assms final_percentages_pos final_percentages_zero)

section \<open>Auxiliary facts\<close>

lemma bucket_sum_nonneg:
  "\<forall>item \<in> set raw. 0 \<le> snd item \<Longrightarrow> 0 \<le> bucket_sum b raw"
  unfolding bucket_sum_def by (rule sum_list_nonneg) auto


lemma defaultdict_get_tab:
  "defaultdict_get (map (\<lambda>k. (k, g k)) ks) k = (if k \<in> set ks then g k else 0)"
  by (induction ks) (auto simp: defaultdict_get_def)

lemma defaultdict_get_totals:
  "defaultdict_get (if segs = [] then [] else map (\<lambda>k. (k, bucket_total em segs k)) emotion_labels) k
     = (if k \<in> set emotion_labels then bucket_total em segs k else 0)"
  by (cases segs) (simp_all add: defaultdict_get_tab, simp_all add: defaultdict_get_def bucket_total_def)

subsection \<open>Rounding\<close>





subsection \<open>The batch loop\<close>

lemma files_to_process_take:
  "files_to_process audio_files = take (min 10 (length audio_files)) audio_files"
  by (simp add: files_to_process_def min_def)

lemma batch_loop_closed:
  assumes "\<forall>f \<in> set files. \<exists>r. run f = Inr r"
  shows "\<exists>st'. batch_loop run i files st = Inr st'
     \<and> statuses st' = statuses st @
          map (\<lambda>(j, f). formatted_status_of j f (fst (projr (run f)))) (enumerate i files)
     \<and> transcripts st' = transcripts st @
          map (\<lambda>(j, f). formatted_transcript_of j f (snd (snd (snd (projr (run f))))))
            (enumerate i files)"
  using assms
proof (induction files arbitrary: i st)
  case Nil
  then show ?case by simp
next
  case (Cons f files)
  then obtain s b l t where r: "run f = Inr (s, b, l, t)"
    by (metis list.set_intros(1) prod_cases4)
  let ?st = "\<lparr>statuses = statuses st @ [formatted_status_of i f s],
               bars = (case b of None \<Rightarrow> bars st | Some x \<Rightarrow> bars st @ [x]),
               lines = (case l of None \<Rightarrow> lines st | Some x \<Rightarrow> lines st @ [x]),
               transcripts = transcripts st @ [formatted_transcript_of i f t]\<rparr>"
  have step: "batch_step run i f st = Inr ?st"
    by (simp add: batch_step_def r)
  from Cons.prems have "\<forall>f \<in> set files. \<exists>r. run f = Inr r" by simp
  from Cons.IH [OF this, of "i + 1" ?st] obtain st' where
    "batch_loop run (i + 1) files ?st = Inr st'"
    "statuses st' = statuses ?st @
          map (\<lambda>(j, f). formatted_status_of j f (fst (projr (run f)))) (enumerate (i + 1) files)"
    "transcripts st' = transcripts ?st @
          map (\<lambda>(j, f). formatted_transcript_of j f (snd (snd (snd (projr (run f))))))
            (enumerate (i + 1) files)"
    by blast
  then show ?case
    by (simp add: step r)
qed

section \<open>The claims\<close>

subsection \<open>C1: a call without segments\<close>



subsection \<open>C2: normalisation\<close>




subsection \<open>C3: scores are added into buckets\<close>

text \<open>
  C3: \<open>classify_emotion\<close> never raises, and the value of every canonical bucket is the sum
  of the scores of all items whose lower-cased label the grouping table assigns to that
  bucket; items with an unrecognised label are in no such sum. Every external label
  stands in one row of the table only. For the raw labels anger 0.3, annoyance 0.2 and
  neutral-ish 0.9 the bucket \<open>angry\<close> is 0.5 and every other bucket is 0.
\<close>

theorem classify_accumulates:
  "classify_emotion emotion_model txt =
     Inr (map (\<lambda>b. (b, bucket_sum b (emotion_model txt))) emotion_labels)
   \<and> distinct (concat (map fst grouping_table))
   \<and> classify_emotion additivity_model txt =
       Inr [(''happy'', 0), (''angry'', 1 / 2), (''frustrated'', 0), (''confused'', 0),
            (''sad'', 0), (''surprised'', 0), (''neutral'', 0), (''hopeful'', 0), (''bored'', 0)]"
proof (intro conjI)
  show "classify_emotion emotion_model txt =
     Inr (map (\<lambda>b. (b, bucket_sum b (emotion_model txt))) emotion_labels)"
    by (rule classify_emotion_closed)
  show "distinct (concat (map fst grouping_table))"
    by (simp add: grouping_table_def)
  show "classify_emotion additivity_model txt =
       Inr [(''happy'', 0), (''angry'', 1 / 2), (''frustrated'', 0), (''confused'', 0),
            (''sad'', 0), (''surprised'', 0), (''neutral'', 0), (''hopeful'', 0), (''bored'', 0)]"
    unfolding classify_emotion_def additivity_model_def dict_fromkeys_labels
    by code_simp
qed

subsection \<open>C4: the shape of an emotion vector\<close>

text \<open>
  C4: for every raw classification whose scores are non-negative, \<open>classify_emotion\<close>
  returns a vector whose keys are exactly the nine canonical names, each once, with
  every value at least 0.
\<close>

theorem classify_nine_keys_nonneg:
  assumes "list_all (\<lambda>item. 0 \<le> snd item) (emotion_model txt)"
  shows "\<exists>mapped. classify_emotion emotion_model txt = Inr mapped
           \<and> map fst mapped = emotion_labels \<and> length mapped = 9
           \<and> distinct (map fst mapped)
           \<and> (\<forall>v \<in> set (map snd mapped). 0 \<le> v)"
proof -
  let ?m = "map (\<lambda>b. (b, bucket_sum b (emotion_model txt))) emotion_labels"
  have "classify_emotion emotion_model txt = Inr ?m"
    by (rule classify_emotion_closed)
  moreover have "map fst ?m = emotion_labels" by (simp add: comp_def)
  moreover have "length ?m = 9" by (simp add: emotion_labels_def)
  moreover have "distinct (map fst ?m)" by (simp add: comp_def) (simp add: emotion_labels_def)
  moreover have "\<forall>v \<in> set (map snd ?m). 0 \<le> v"
    using bucket_sum_nonneg [of "emotion_model txt"] assms
    by (auto simp: comp_def list_all_iff)
  ultimately show ?thesis by blast
qed

theorem classify_nine_keys_nonneg_witness:
  "list_all (\<lambda>item. 0 \<le> snd item) (additivity_model ''hi'')
   \<and> (\<exists>mapped. classify_emotion additivity_model ''hi'' = Inr mapped
           \<and> map fst mapped = emotion_labels \<and> length mapped = 9
           \<and> distinct (map fst mapped)
           \<and> (\<forall>v \<in> set (map snd mapped). 0 \<le> v))"
proof -
  have h: "list_all (\<lambda>item. 0 \<le> snd item) (additivity_model ''hi'')"
    by (simp add: additivity_model_def)
  from h classify_nine_keys_nonneg [of additivity_model "''hi''"] show ?thesis by blast
qed

subsection \<open>C5: the totals do not depend on the order of two segments\<close>

text \<open>
  C5: processing the segments \<open>[a, b]\<close> and processing \<open>[b, a]\<close> give the same accumulated
  totals, while the two histories are each other's reversal.
\<close>

theorem totals_order_independent:
  "\<exists>st_ab st_ba.
      segments_loop em lang [a, b] init_state = Inr st_ab
    \<and> segments_loop em lang [b, a] init_state = Inr st_ba
    \<and> emotion_totals st_ab = emotion_totals st_ba
    \<and> emotion_history st_ab = rev (emotion_history st_ba)"
  by (simp add: segments_loop_init bucket_total_def add.commute)

subsection \<open>C6: the mapper does not depend on the order of the items\<close>



subsection \<open>C7: the totals only grow\<close>

text \<open>
  C7: if the vector of a further segment has no negative value, then for every key the
  accumulated total after that segment is at least the total before it. A key that the
  accumulator does not hold yet reads as 0.0, as in a \<open>defaultdict\<close>.
\<close>

theorem totals_monotone:
  assumes "classify_emotion em (translate_text_auto (seg_text seg) lang) = Inr emos"
      and "list_all (\<lambda>v. 0 \<le> v) (map snd emos)"
  shows "\<exists>st st'.
      segments_loop em lang segs init_state = Inr st
    \<and> segments_loop em lang (segs @ [seg]) init_state = Inr st'
    \<and> (\<forall>k. defaultdict_get (emotion_totals st) k \<le> defaultdict_get (emotion_totals st') k)"
proof -
  from assms(1) have emos: "emos = map (\<lambda>k. (k, bucket_sum k (em (seg_text seg)))) emotion_labels"
    by (simp add: classify_emotion_closed translate_text_auto_def)
  have nonneg: "0 \<le> bucket_sum k (em (seg_text seg))" if "k \<in> set emotion_labels" for k
    using assms(2) that unfolding emos by (auto simp: comp_def list_all_iff)
  have "defaultdict_get (if segs = [] then [] else map (\<lambda>k. (k, bucket_total em segs k)) emotion_labels) k
      \<le> defaultdict_get (map (\<lambda>k. (k, bucket_total em (segs @ [seg]) k)) emotion_labels) k" for k
    using nonneg [of k]
    by (simp add: defaultdict_get_totals defaultdict_get_tab) (simp add: bucket_total_def)
  then show ?thesis
    by (simp add: segments_loop_init)
qed

theorem totals_monotone_witness:
  "classify_emotion additivity_model (translate_text_auto (seg_text \<lparr>seg_text = ''hi''\<rparr>) ''en'') =
     Inr [(''happy'', 0), (''angry'', 1 / 2), (''frustrated'', 0), (''confused'', 0),
          (''sad'', 0), (''surprised'', 0), (''neutral'', 0), (''hopeful'', 0), (''bored'', 0)]
   \<and> list_all (\<lambda>v. 0 \<le> v) (map snd
          [(''happy'', 0), (''angry'', 1 / 2), (''frustrated'', 0), (''confused'', 0),
           (''sad'', 0), (''surprised'', 0), (''neutral'', 0), (''hopeful'', 0),
           (''bored'', 0 :: rat)])
   \<and> (\<exists>st st'.
          segments_loop additivity_model ''en'' [\<lparr>seg_text = ''hello''\<rparr>] init_state = Inr st
        \<and> segments_loop additivity_model ''en'' ([\<lparr>seg_text = ''hello''\<rparr>] @ [\<lparr>seg_text = ''hi''\<rparr>])
              init_state = Inr st'
        \<and> (\<forall>k. defaultdict_get (emotion_totals st) k \<le> defaultdict_get (emotion_totals st') k))"
proof -
  let ?emos = "[(''happy'', 0), (''angry'', 1 / 2), (''frustrated'', 0), (''confused'', 0),
          (''sad'', 0), (''surprised'', 0), (''neutral'', 0), (''hopeful'', 0), (''bored'', 0 :: rat)]"
  have h1: "classify_emotion additivity_model
              (translate_text_auto (seg_text \<lparr>seg_text = ''hi''\<rparr>) ''en'') = Inr ?emos"
    by code_simp
  have h2: "list_all (\<lambda>v. 0 \<le> v) (map snd ?emos)"
    by simp
  from totals_monotone [OF h1 h2, of "[\<lparr>seg_text = ''hello''\<rparr>]"] h1 h2 show ?thesis
    by (intro conjI) assumption+
qed

subsection \<open>C8: the transcript\<close>

text \<open>
  C8: the transcript that \<open>analyze_call\<close> returns is the text of the first segment followed,
  for every later segment in input order, by a newline and that segment's text; it is
  empty when there is no segment.
\<close>

theorem transcript_joined:
  "\<exists>history percentages.
      analyze_call em result =
        Inr (history, percentages,
             (case map seg_text (segments result) of
                [] \<Rightarrow> []
              | t # ts \<Rightarrow> t @ concat (map (\<lambda>u. newline @ u) ts)))"
  by (simp add: analyze_call_state [OF accumulate_closed] py_join_newline)

subsection \<open>C9: the cap of a batch\<close>

text \<open>
  As stated, C9 says that the files beyond the tenth are dropped without any indication.
  For an upload of eleven files the notification that \<open>process_batch\<close> returns ends with
  the words that the run was limited to the first 10 files and that 1 file was skipped.
\<close>

theorem batch_truncation_counterexample:
  "length eleven_files = 11
   \<and> snd (snd (snd (snd (projr (process_batch stub_analysis (Some eleven_files)))))) =
       check_icon @ '' Successfully processed 10 file(s)! (Limited to first 10 files, 1 files skipped)''"
  by code_simp

text \<open>
  C9 (amended): for a non-empty upload on whose first ten files the analysis does not
  raise, \<open>process_batch\<close> handles exactly the first \<open>min(10, length)\<close> files in order, one
  status and one transcript per file, and its notification gives that number of files
  and, when more than ten were uploaded, says that the run was limited to the first ten
  and how many files were skipped.
\<close>

theorem batch_cap_reported:
  assumes "audio_files \<noteq> []"
      and "list_all (\<lambda>f. \<not> isl (run f)) (files_to_process audio_files)"
  shows "files_to_process audio_files = take (min 10 (length audio_files)) audio_files
    \<and> (\<exists>bar_images line_images.
          process_batch run (Some audio_files) =
            Inr (py_join newline
                   (map (\<lambda>(j, f). formatted_status_of j f (fst (projr (run f))))
                      (enumerate 0 (take (min 10 (length audio_files)) audio_files))),
                 bar_images, line_images,
                 py_join newline
                   (map (\<lambda>(j, f). formatted_transcript_of j f (snd (snd (snd (projr (run f))))))
                      (enumerate 0 (take (min 10 (length audio_files)) audio_files))),
                 check_icon @ '' Successfully processed ''
                   @ str_nat (min 10 (length audio_files)) @ '' file(s)!''
                   @ (if 10 < length audio_files
                      then '' (Limited to first 10 files, ''
                             @ str_nat (length audio_files - 10) @ '' files skipped)''
                      else [])))"
proof -
  let ?init = "\<lparr>statuses = [], bars = [], lines = [], transcripts = []\<rparr> :: 'a batch_state"
  have files: "files_to_process audio_files = take (min 10 (length audio_files)) audio_files"
    by (rule files_to_process_take)
  have "\<exists>r. run f = Inr r" if "\<not> isl (run f)" for f
    using that by (cases "run f") auto
  with assms(2) have "\<forall>f \<in> set (files_to_process audio_files). \<exists>r. run f = Inr r"
    by (simp add: list_all_iff)
  from batch_loop_closed [OF this, of 0 ?init] obtain st where
    loop: "batch_loop run 0 (files_to_process audio_files) ?init = Inr st"
    and st: "statuses st =
          map (\<lambda>(j, f). formatted_status_of j f (fst (projr (run f))))
            (enumerate 0 (files_to_process audio_files))"
    and tr: "transcripts st =
          map (\<lambda>(j, f). formatted_transcript_of j f (snd (snd (snd (projr (run f))))))
            (enumerate 0 (files_to_process audio_files))"
    by auto
  have msg: "notification_of audio_files =
      check_icon @ '' Successfully processed ''
        @ str_nat (min 10 (length audio_files)) @ '' file(s)!''
        @ (if 10 < length audio_files
           then '' (Limited to first 10 files, ''
                  @ str_nat (length audio_files - 10) @ '' files skipped)''
           else [])"
    by (simp add: notification_of_def files Let_def)
  have "process_batch run (Some audio_files) =
          Inr (py_join newline (statuses st), bars st, lines st,
               py_join newline (transcripts st), notification_of audio_files)"
    by (simp add: process_batch_def assms(1) loop)
  then show ?thesis
    unfolding st tr msg files [symmetric] using files by blast
qed

theorem batch_cap_reported_witness:
  "eleven_files \<noteq> []
   \<and> list_all (\<lambda>f. \<not> isl (stub_analysis f)) (files_to_process eleven_files)
   \<and> files_to_process eleven_files = take (min 10 (length eleven_files)) eleven_files
   \<and> (\<exists>bar_images line_images.
          process_batch stub_analysis (Some eleven_files) =
            Inr (py_join newline
                   (map (\<lambda>(j, f). formatted_status_of j f (fst (projr (stub_analysis f))))
                      (enumerate 0 (take (min 10 (length eleven_files)) eleven_files))),
                 bar_images, line_images,
                 py_join newline
                   (map (\<lambda>(j, f). formatted_transcript_of j f
                                     (snd (snd (snd (projr (stub_analysis f))))))
                      (enumerate 0 (take (min 10 (length eleven_files)) eleven_files))),
                 check_icon @ '' Successfully processed ''
                   @ str_nat (min 10 (length eleven_files)) @ '' file(s)!''
                   @ (if 10 < length eleven_files
                      then '' (Limited to first 10 files, ''
                             @ str_nat (length eleven_files - 10) @ '' files skipped)''
                      else [])))"
proof -
  have h1: "eleven_files \<noteq> []"
    by (simp add: eleven_files_def)
  have h2: "list_all (\<lambda>f. \<not> isl (stub_analysis f)) (files_to_process eleven_files)"
    by (simp add: stub_analysis_def list_all_iff)
  from batch_cap_reported [OF h1 h2] h1 h2 show ?thesis
    by blast
qed

subsection \<open>C10: the nine keys of the totals and of the percentages\<close>

text \<open>
  C10: \<open>analyze_call\<close> always returns; when at least one segment is processed the keys of
  the accumulated totals and of the percentages are exactly the nine canonical names,
  and when no segment is processed both mappings have no key at all.
\<close>

theorem nine_keys_when_nonempty:
  "\<exists>st history percentages transcript.
      accumulate em result = Inr st
    \<and> analyze_call em result = Inr (history, percentages, transcript)
    \<and> map fst (emotion_totals st) = (if segments result = [] then [] else emotion_labels)
    \<and> map fst percentages = (if segments result = [] then [] else emotion_labels)"
  by (simp add: analyze_call_state [OF accumulate_closed] accumulate_closed comp_def)

end
